theory Spec2Isabelle
  imports Main
begin

section \<open>Python control flow: exceptions and state\<close>

text \<open>
  The module \<^verbatim>\<open>treescope/_internal/api/ipython_integration.py\<close> is glue code: it
  decides which collaborator to call, with which arguments, in which order, and what to
  return.  Every function of it is embedded as a state transformer that returns either
  the value the Python function returns (\<open>Inr\<close>) or the exception it raises
  (\<open>Inl\<close>), together with the state after the call.

  The exceptions raised by the module's own statements each have a constructor;
  whatever a collaborator raises is \<open>Raised\<close> with the collaborator's own description.
\<close>

datatype exn =
    RuntimeError string
  | KeyError string
  | AttributeError string
  | TypeError string
  | AssertionError
  | InvariantViolation
  | Raised string

type_synonym ('a, 's) py = "'s \<Rightarrow> (exn + 'a) \<times> 's"

definition py_return :: "'a \<Rightarrow> ('a, 's) py" where
  "py_return x = (\<lambda>s. (Inr x, s))"

definition py_raise :: "exn \<Rightarrow> ('a, 's) py" where
  "py_raise e = (\<lambda>s. (Inl e, s))"

definition py_bind :: "('a, 's) py \<Rightarrow> ('a \<Rightarrow> ('b, 's) py) \<Rightarrow> ('b, 's) py" where
  "py_bind m f = (\<lambda>s. case m s of (Inl e, s') \<Rightarrow> (Inl e, s') | (Inr x, s') \<Rightarrow> f x s')"

text \<open>What a collaborator's call yields: its own failure, or a value.\<close>

definition lift_ext :: "string + 'a \<Rightarrow> exn + 'a" where
  "lift_ext r = (case r of Inl x \<Rightarrow> Inl (Raised x) | Inr a \<Rightarrow> Inr a)"

section \<open>The formatter dispatch policy: \<^verbatim>\<open>_render_for_ipython\<close>\<close>

text \<open>
  What a formatter hands back to the host: Python's \<^verbatim>\<open>None\<close>, an HTML string, or an
  object that the host displays in turn.
\<close>

datatype ('h, 'o) ret = PyNone | PyStr 'h | PyObj 'o

text \<open>
  A displayed value, as far as the policy looks at it.  The fields
  \<open>real_method_*\<close> are what \<^verbatim>\<open>object_inspection.safely_get_real_method(value, name)\<close>
  returns for the four names the policy probes: \<open>None\<close> when the value has no genuine
  method of that name, and otherwise the method.  A method that the policy calls
  (with no arguments) is given by what the call yields; a method that is only tested
  for presence is a flag.  \<open>is_DisplayObject\<close> is
  \<^verbatim>\<open>isinstance(value, IPython.display.DisplayObject)\<close>.
\<close>

record ('h, 'o, 'ir) py_value =
  real_method_repr_html :: "(string + ('h, 'o) ret) option"
  is_DisplayObject :: bool
  real_method_repr_pretty :: bool
  real_method_treescope_repr :: bool
  real_method_treescope_root_repr :: "(string + 'ir) option"

text \<open>
  The rendering engine (\<^verbatim>\<open>default_renderer\<close>, \<^verbatim>\<open>rendering_parts\<close>, \<^verbatim>\<open>lowering\<close>) is an
  external collaborator: its functions are parameters of the model.  Each takes the
  arguments the source passes, in the source's order:
  \<^item> \<^verbatim>\<open>lowering.collecting_deferred_renderings()\<close>: what entering the context
    manager yields;
  \<^item> \<^verbatim>\<open>default_renderer.build_foldable_representation(value, ignore_exceptions)\<close>;
  \<^item> \<^verbatim>\<open>rendering_parts.build_full_line_with_annotations(ir)\<close>;
  \<^item> \<^verbatim>\<open>lowering.display_streaming_as_root(ir, deferreds, roundtrip, compressed, stealable)\<close>;
  \<^item> \<^verbatim>\<open>lowering.render_to_html_as_root(ir, roundtrip, compressed)\<close>.
\<close>

record ('h, 'o, 'ir, 'd) engine =
  collecting_deferred_renderings :: "string + 'd"
  build_foldable_representation :: "('h, 'o, 'ir) py_value \<Rightarrow> bool \<Rightarrow> string + 'ir"
  build_full_line_with_annotations :: "'ir \<Rightarrow> string + 'ir"
  display_streaming_as_root ::
    "'ir \<Rightarrow> 'd option \<Rightarrow> bool \<Rightarrow> bool \<Rightarrow> bool \<Rightarrow> string + 'o"
  render_to_html_as_root :: "'ir \<Rightarrow> bool \<Rightarrow> bool \<Rightarrow> string + 'h"

text \<open>
  Every call the policy makes is recorded, with its arguments, in the order made.
  The first two are calls of the value's own methods; the others are calls of the
  rendering engine.
\<close>

datatype ('h, 'o, 'ir, 'd) call =
    Call_repr_html
  | Call_treescope_root_repr
  | Enter_collecting_deferred_renderings
  | Exit_collecting_deferred_renderings
  | Call_build_foldable_representation "('h, 'o, 'ir) py_value" bool
  | Call_build_full_line_with_annotations 'ir
  | Call_display_streaming_as_root 'ir "'d option" bool bool bool
  | Call_render_to_html_as_root 'ir bool bool

fun is_engine_call :: "('h, 'o, 'ir, 'd) call \<Rightarrow> bool" where
  "is_engine_call Call_repr_html = False"
| "is_engine_call Call_treescope_root_repr = False"
| "is_engine_call _ = True"

text \<open>
  The state of one run of the policy: the calls made so far, and the exit callbacks
  registered on the \<^verbatim>\<open>contextlib.ExitStack\<close> of the run (last registered first).
\<close>

record 'c frame =
  calls :: "'c list"
  exit_stack :: "'c list"

definition ext_call :: "'c \<Rightarrow> string + 'a \<Rightarrow> ('a, 'c frame) py" where
  "ext_call c r = (\<lambda>s. (lift_ext r, s\<lparr>calls := calls s @ [c]\<rparr>))"

text \<open>
  \<^verbatim>\<open>stack.enter_context(cm)\<close>: enters the context manager and, when that succeeded,
  registers its exit on the stack.
\<close>

definition enter_context :: "'c \<Rightarrow> 'c \<Rightarrow> string + 'a \<Rightarrow> ('a, 'c frame) py" where
  "enter_context c_enter c_exit r =
     py_bind (ext_call c_enter r)
       (\<lambda>x s. (Inr x, s\<lparr>exit_stack := c_exit # exit_stack s\<rparr>))"

text \<open>
  \<^verbatim>\<open>with contextlib.ExitStack() as stack: body\<close>: the body runs on a fresh stack; however
  it ends (a \<^verbatim>\<open>return\<close> or an exception), the registered exits run, last registered
  first, and the outcome of the body stands.  The one context manager the policy
  registers is generator-based and does not swallow exceptions.
\<close>

definition with_ExitStack :: "('a, 'c frame) py \<Rightarrow> ('a, 'c frame) py" where
  "with_ExitStack body =
     (\<lambda>s. case body (s\<lparr>exit_stack := []\<rparr>) of
        (r, s') \<Rightarrow> (r, \<lparr>calls = calls s' @ exit_stack s', exit_stack = exit_stack s\<rparr>))"

text \<open>
  The closure \<^verbatim>\<open>_render_for_ipython(value)\<close> of \<^verbatim>\<open>register_as_default(streaming,
  compress_html)\<close>, lines 144 to 206.
\<close>

definition render_for_ipython ::
  "('h, 'o, 'ir, 'd) engine \<Rightarrow> bool \<Rightarrow> bool \<Rightarrow> ('h, 'o, 'ir) py_value
     \<Rightarrow> (('h, 'o) ret, ('h, 'o, 'ir, 'd) call frame) py" where
  "render_for_ipython eng streaming compress_html v =
     (case real_method_repr_html v of
        Some repr_html_method \<Rightarrow> ext_call Call_repr_html repr_html_method
      | None \<Rightarrow>
          if is_DisplayObject v \<or>
             (real_method_repr_pretty v \<and>
              \<not> (real_method_treescope_repr v \<or> real_method_treescope_root_repr v \<noteq> None))
          then py_return PyNone
          else
            with_ExitStack
              (py_bind
                 (if streaming
                  then py_bind
                         (enter_context Enter_collecting_deferred_renderings
                            Exit_collecting_deferred_renderings
                            (collecting_deferred_renderings eng))
                         (\<lambda>d. py_return (Some d))
                  else py_return None)
                 (\<lambda>deferreds.
                    py_bind
                      (case real_method_treescope_root_repr v of
                         Some root_repr_method \<Rightarrow>
                           ext_call Call_treescope_root_repr root_repr_method
                       | None \<Rightarrow>
                           py_bind
                             (ext_call (Call_build_foldable_representation v True)
                                (build_foldable_representation eng v True))
                             (\<lambda>ir. ext_call (Call_build_full_line_with_annotations ir)
                                     (build_full_line_with_annotations eng ir)))
                      (\<lambda>foldable_ir.
                         if streaming
                         then py_bind
                                (ext_call
                                   (Call_display_streaming_as_root foldable_ir deferreds
                                      False compress_html True)
                                   (display_streaming_as_root eng foldable_ir deferreds
                                      False compress_html True))
                                (\<lambda>output_stealer. py_return (PyObj output_stealer))
                         else if deferreds \<noteq> None then py_raise AssertionError
                         else py_bind
                                (ext_call
                                   (Call_render_to_html_as_root foldable_ir False
                                      compress_html)
                                   (render_to_html_as_root eng foldable_ir False
                                      compress_html))
                                (\<lambda>html. py_return (PyStr html))))))"

text \<open>A run of the policy starts with no call made and no exit registered.\<close>

definition frame0 :: "'c frame" where
  "frame0 = \<lparr>calls = [], exit_stack = []\<rparr>"

text \<open>
  Lines 175 to 185 read on their own: the representation the policy obtains for a
  value (or the failure of obtaining it), and the calls made for it.  The proofs
  below compute the custom path through it.
\<close>

definition obtain_foldable_ir ::
  "('h, 'o, 'ir, 'd) engine \<Rightarrow> ('h, 'o, 'ir) py_value
     \<Rightarrow> (string + 'ir) \<times> ('h, 'o, 'ir, 'd) call list" where
  "obtain_foldable_ir eng v =
     (case real_method_treescope_root_repr v of
        Some root_repr_method \<Rightarrow> (root_repr_method, [Call_treescope_root_repr])
      | None \<Rightarrow>
          (case build_foldable_representation eng v True of
             Inl x \<Rightarrow> (Inl x, [Call_build_foldable_representation v True])
           | Inr ir \<Rightarrow>
               (build_full_line_with_annotations eng ir,
                [Call_build_foldable_representation v True,
                 Call_build_full_line_with_annotations ir])))"


section \<open>Scoped context values\<close>

text \<open>
  Modelled from the spec: the class \<^verbatim>\<open>treescope.context.ContextualValue\<close> is not among
  the sources.  Sections 3 and 4.1 of the specification describe it: a permanent value
  and an ordered stack of temporary overrides (here innermost first).
\<close>

record 'a ContextualValue =
  permanent :: 'a
  overrides :: "'a list"

text \<open>
  Modelled from the spec: \<^verbatim>\<open>ContextualValue.get\<close> is not among the sources.  It returns
  the top of the override stack, or the permanent value if the stack is empty, and
  never fails.
\<close>

definition get :: "'a ContextualValue \<Rightarrow> 'a" where
  "get cv = (case overrides cv of [] \<Rightarrow> permanent cv | x # _ \<Rightarrow> x)"

text \<open>
  Modelled from the spec: \<^verbatim>\<open>ContextualValue.set_globally\<close> is not among the sources.
  It replaces the permanent value and does not affect any active temporary override.
\<close>

definition set_globally :: "'a \<Rightarrow> 'a ContextualValue \<Rightarrow> 'a ContextualValue" where
  "set_globally v cv = cv\<lparr>permanent := v\<rparr>"

text \<open>
  Modelled from the spec: \<^verbatim>\<open>ContextualValue.set_scoped\<close> is not among the sources.
  Entering the scope pushes the value and yields a guard; the guard remembers how
  many overrides lay below the entry it pushed.  Releasing the guard pops exactly
  that entry; released out of last-in-first-out order it fails loudly with an
  invariant violation (the behaviour the specification recommends).
\<close>

definition set_scoped_enter :: "'a \<Rightarrow> 'a ContextualValue \<Rightarrow> nat \<times> 'a ContextualValue" where
  "set_scoped_enter v cv = (length (overrides cv), cv\<lparr>overrides := v # overrides cv\<rparr>)"

definition set_scoped_exit :: "nat \<Rightarrow> 'a ContextualValue \<Rightarrow> exn + 'a ContextualValue" where
  "set_scoped_exit guard cv =
     (if length (overrides cv) = Suc guard
      then Inr (cv\<lparr>overrides := tl (overrides cv)\<rparr>)
      else Inl InvariantViolation)"

section \<open>The cell magics\<close>

text \<open>
  A Python \<^verbatim>\<open>str\<close> is a list of code points.  \<open>py_isspace\<close> is the whitespace test of
  \<^verbatim>\<open>str.strip()\<close> with no argument, and \<open>py_strip\<close> removes leading and trailing
  whitespace.
\<close>

type_synonym pystr = "nat list"

definition py_isspace :: "nat \<Rightarrow> bool" where
  "py_isspace c =
     ((9 \<le> c \<and> c \<le> 13) \<or> (28 \<le> c \<and> c \<le> 32) \<or> c = 133 \<or> c = 160 \<or> c = 5760 \<or>
      (8192 \<le> c \<and> c \<le> 8202) \<or> c = 8232 \<or> c = 8233 \<or> c = 8239 \<or> c = 8287 \<or>
      c = 12288)"

definition py_strip :: "pystr \<Rightarrow> pystr" where
  "py_strip s = rev (dropWhile py_isspace (rev (dropWhile py_isspace s)))"

text \<open>
  The objects a line of a magic can evaluate to, as far as the magics look at them:
  \<^verbatim>\<open>None\<close>, a callable taking \<^verbatim>\<open>(value, path)\<close> (an autovisualizer), or any other
  object.
\<close>

datatype ('v, 'p, 'r) pyobj =
    NoneObj
  | Callable "'v \<Rightarrow> 'p \<Rightarrow> 'r option"
  | Obj nat

text \<open>
  The interpreter state that user code can read and change: the two context values
  the magics use (\<^verbatim>\<open>autovisualize.active_autovisualizer\<close> and this module's
  \<^verbatim>\<open>default_magic_autovisualizer\<close>) and everything else.
\<close>

record ('a, 'u) kernel =
  active_autovisualizer :: "'a ContextualValue"
  default_magic_autovisualizer :: "'a ContextualValue"
  user_ns :: 'u

text \<open>
  The context manager protocol: \<^verbatim>\<open>__enter__\<close>, and \<^verbatim>\<open>__exit__\<close> which is told the
  exception that left the body (if any) and answers whether to swallow it.
\<close>

record 'k context_manager =
  cm_enter :: "'k \<Rightarrow> (string + unit) \<times> 'k"
  cm_exit :: "exn option \<Rightarrow> 'k \<Rightarrow> (string + bool) \<times> 'k"

text \<open>
  The host's \<^verbatim>\<open>self.shell\<close>: \<^verbatim>\<open>ev\<close> evaluates an expression in the user's namespace,
  \<^verbatim>\<open>run_cell\<close> runs a cell body.  Both are arbitrary user code: they may fail and may
  change the interpreter state.  \<open>context_manager_of\<close> gives the context manager
  protocol of an object, or else the exception that the \<^verbatim>\<open>with\<close> statement of the
  running interpreter raises for an object without the protocol (its class and its
  message, which names the object's type, depend on the Python version).
\<close>

record ('obj, 'k) shell =
  ev :: "pystr \<Rightarrow> 'k \<Rightarrow> (string + 'obj) \<times> 'k"
  run_cell :: "pystr \<Rightarrow> 'k \<Rightarrow> (string + unit) \<times> 'k"
  context_manager_of :: "'obj \<Rightarrow> exn + 'k context_manager"

text \<open>What a magic does, in order.\<close>

datatype 'obj magic_event =
    Shell_ev pystr
  | Get_default_magic_autovisualizer
  | Enter_set_scoped 'obj
  | Exit_set_scoped
  | Enter_ctxmgr
  | Exit_ctxmgr "exn option"
  | Shell_run_cell pystr

record ('obj, 'k) magic_state =
  kernel :: 'k
  trace :: "'obj magic_event list"

definition shell_call ::
  "'obj magic_event \<Rightarrow> ('k \<Rightarrow> (string + 'a) \<times> 'k) \<Rightarrow> ('a, ('obj, 'k) magic_state) py" where
  "shell_call e f =
     (\<lambda>s. case f (kernel s) of
        (r, k') \<Rightarrow> (lift_ext r, \<lparr>kernel = k', trace = trace s @ [e]\<rparr>))"

text \<open>
  Python's \<^verbatim>\<open>with cm: body\<close> as the last statement of a function.  If entering fails,
  the body does not run and nothing is exited.  Otherwise the body runs and the exit
  runs however the body ended; an exception of the body propagates unless the exit
  swallows it, and an exception of the exit replaces it.
\<close>

definition py_with ::
  "('g, 's) py \<Rightarrow> ('g \<Rightarrow> exn option \<Rightarrow> (bool, 's) py) \<Rightarrow> (unit, 's) py \<Rightarrow> (unit, 's) py" where
  "py_with enter exit body =
     (\<lambda>s. case enter s of
        (Inl e, s1) \<Rightarrow> (Inl e, s1)
      | (Inr g, s1) \<Rightarrow>
          (case body s1 of
             (Inr _, s2) \<Rightarrow>
               (case exit g None s2 of
                  (Inl e', s3) \<Rightarrow> (Inl e', s3)
                | (Inr _, s3) \<Rightarrow> (Inr (), s3))
           | (Inl e, s2) \<Rightarrow>
               (case exit g (Some e) s2 of
                  (Inl e', s3) \<Rightarrow> (Inl e', s3)
                | (Inr swallow, s3) \<Rightarrow> (if swallow then Inr () else Inl e, s3))))"

text \<open>
  \<^verbatim>\<open>autovisualize.active_autovisualizer.set_scoped(v)\<close> as a context manager on the
  interpreter state.  It never swallows an exception.
\<close>

definition active_set_scoped_enter ::
  "'obj \<Rightarrow> (nat, ('obj, ('obj, 'u) kernel) magic_state) py" where
  "active_set_scoped_enter v =
     (\<lambda>s. case set_scoped_enter v (active_autovisualizer (kernel s)) of
        (guard, cv) \<Rightarrow>
          (Inr guard,
           \<lparr>kernel = (kernel s)\<lparr>active_autovisualizer := cv\<rparr>,
            trace = trace s @ [Enter_set_scoped v]\<rparr>))"

definition active_set_scoped_exit ::
  "nat \<Rightarrow> exn option \<Rightarrow> (bool, ('obj, ('obj, 'u) kernel) magic_state) py" where
  "active_set_scoped_exit guard exc =
     (\<lambda>s. case set_scoped_exit guard (active_autovisualizer (kernel s)) of
        Inl e \<Rightarrow> (Inl e, s\<lparr>trace := trace s @ [Exit_set_scoped]\<rparr>)
      | Inr cv \<Rightarrow>
          (Inr False,
           \<lparr>kernel = (kernel s)\<lparr>active_autovisualizer := cv\<rparr>,
            trace = trace s @ [Exit_set_scoped]\<rparr>))"

text \<open>\<^verbatim>\<open>AutovisualizerMagic.autovisualize(self, line, cell)\<close>, lines 314 to 323.\<close>

definition autovisualize ::
  "(('v, 'p, 'r) pyobj, (('v, 'p, 'r) pyobj, 'u) kernel) shell \<Rightarrow> pystr \<Rightarrow> pystr
     \<Rightarrow> (unit, (('v, 'p, 'r) pyobj, (('v, 'p, 'r) pyobj, 'u) kernel) magic_state) py" where
  "autovisualize sh line cell =
     py_bind
       (if py_strip line \<noteq> []
        then shell_call (Shell_ev line) (ev sh line)
        else (\<lambda>s. (Inr (get (default_magic_autovisualizer (kernel s))),
                   s\<lparr>trace := trace s @ [Get_default_magic_autovisualizer]\<rparr>)))
       (\<lambda>autovisualizer.
          py_bind
            (py_return
               (if autovisualizer = NoneObj then Callable (\<lambda>value path. None)
                else autovisualizer))
            (\<lambda>autovisualizer.
               py_with (active_set_scoped_enter autovisualizer) active_set_scoped_exit
                 (shell_call (Shell_run_cell cell) (run_cell sh cell))))"

text \<open>
  \<^verbatim>\<open>ContextManagerMagic.with_(self, line, cell)\<close>, lines 354 to 356.  An object
  without the context manager protocol makes the \<^verbatim>\<open>with\<close> statement raise before
  anything is entered.
\<close>

definition with_magic ::
  "('obj, 'k) shell \<Rightarrow> pystr \<Rightarrow> pystr \<Rightarrow> (unit, ('obj, 'k) magic_state) py" where
  "with_magic sh line cell =
     py_bind (shell_call (Shell_ev line) (ev sh line))
       (\<lambda>ctxmgr.
          case context_manager_of sh ctxmgr of
            Inl not_a_context_manager \<Rightarrow> py_raise not_a_context_manager
          | Inr cm \<Rightarrow>
              py_with (shell_call Enter_ctxmgr (cm_enter cm))
                (\<lambda>_ exc. shell_call (Exit_ctxmgr exc) (cm_exit cm exc))
                (shell_call (Shell_run_cell cell) (run_cell sh cell)))"


section \<open>The host and the public entry points\<close>

text \<open>
  A Python \<^verbatim>\<open>dict\<close> keeps its keys in insertion order: it is a list of pairs with
  distinct keys.  Assigning to a key that is present replaces the value in place;
  assigning to a new key appends.
\<close>

fun dict_setitem :: "'k \<Rightarrow> 'v \<Rightarrow> ('k \<times> 'v) list \<Rightarrow> ('k \<times> 'v) list" where
  "dict_setitem k v [] = [(k, v)]"
| "dict_setitem k v ((k', v') # d) =
     (if k' = k then (k', v) # d else (k', v') # dict_setitem k v d)"

definition dict_getitem :: "('k \<times> 'v) list \<Rightarrow> 'k \<Rightarrow> 'v option" where
  "dict_getitem d k = map_of d k"

text \<open>
  The functions registered with a formatter: the two closures of
  \<^verbatim>\<open>register_as_default\<close> (the first with the \<^verbatim>\<open>streaming\<close> and \<^verbatim>\<open>compress_html\<close>
  it closes over), or a function of the host's or the user's.
\<close>

datatype printer =
    Closure_render_for_ipython bool bool
  | Closure_render_as_text_oneline
  | Other_printer nat

text \<open>
  A formatter object of the host: the functions registered by type
  (\<^verbatim>\<open>for_type\<close>) and by module and type name (\<^verbatim>\<open>for_type_by_name\<close>).
\<close>

record formatter =
  type_printers :: "(string \<times> printer) list"
  deferred_printers :: "((string \<times> string) \<times> printer) list"

datatype magics_class = AutovisualizerMagic | ContextManagerMagic

text \<open>
  The running shell (\<^verbatim>\<open>IPython.get_ipython()\<close>).  \<open>formatters\<close> is the dict
  \<^verbatim>\<open>display_formatter.formatters\<close>, from MIME type to formatter object; formatter
  objects are mutable and shared, so the dict holds their addresses and
  \<open>formatter_objects\<close> is the store.
\<close>

record interactive_shell =
  formatters :: "(string \<times> nat) list"
  formatter_objects :: "nat \<Rightarrow> formatter"
  registered_magics :: "magics_class list"

definition for_type :: "nat \<Rightarrow> string \<Rightarrow> printer \<Rightarrow> interactive_shell \<Rightarrow> interactive_shell" where
  "for_type addr typ func sh =
     sh\<lparr>formatter_objects := (formatter_objects sh)
          (addr := (formatter_objects sh addr)
             \<lparr>type_printers := dict_setitem typ func (type_printers (formatter_objects sh addr))\<rparr>)\<rparr>"

definition for_type_by_name ::
  "nat \<Rightarrow> string \<Rightarrow> string \<Rightarrow> printer \<Rightarrow> interactive_shell \<Rightarrow> interactive_shell" where
  "for_type_by_name addr type_module type_name func sh =
     sh\<lparr>formatter_objects := (formatter_objects sh)
          (addr := (formatter_objects sh addr)
             \<lparr>deferred_printers :=
                dict_setitem (type_module, type_name) func
                  (deferred_printers (formatter_objects sh addr))\<rparr>)\<rparr>"

text \<open>
  The module \<^verbatim>\<open>google.colab._reprs\<close>, when it can be imported: how each of its three
  functions ends.
\<close>

datatype colab_outcome = Done | Raises_KeyError | Raises_ImportError | Raises_other string

record colab_reprs =
  disable_string_repr :: colab_outcome
  disable_ndarray_repr :: colab_outcome
  disable_function_repr :: colab_outcome

text \<open>Arguments of \<^verbatim>\<open>show\<close>: strings (the separator is one) and other values.\<close>

datatype 'v arg = Str string | Val 'v

text \<open>
  The calls of the entry points to the renderer, to \<^verbatim>\<open>figures\<close>, to
  \<^verbatim>\<open>IPython.display.display\<close> and to \<^verbatim>\<open>google.colab._reprs\<close>, in the order made.
\<close>

datatype ('v, 'h, 'fig) effect =
    Call_render_to_html 'v bool bool bool
  | Call_figures_inline "'v arg list" bool
  | Display_HTML 'h
  | Display 'fig
  | Call_disable_string_repr
  | Call_disable_ndarray_repr
  | Call_disable_function_repr

text \<open>
  The renderer as the entry points use it:
  \<^verbatim>\<open>default_renderer.render_to_html(value, ignore_exceptions, roundtrip_mode, compressed)\<close>
  and \<^verbatim>\<open>figures.inline(*args, wrap)\<close>.
\<close>

record ('v, 'h, 'fig) renderer =
  render_to_html :: "'v \<Rightarrow> bool \<Rightarrow> bool \<Rightarrow> bool \<Rightarrow> string + 'h"
  figures_inline :: "'v arg list \<Rightarrow> bool \<Rightarrow> string + 'fig"

text \<open>
  The world of the entry points.  \<open>IPython\<close> is the module-level name \<^verbatim>\<open>IPython\<close>:
  \<open>None\<close> when the import failed, and otherwise what \<^verbatim>\<open>IPython.get_ipython()\<close>
  returns (the running shell, or \<^verbatim>\<open>None\<close> outside a session).
\<close>

record ('v, 'h, 'fig) world =
  IPython :: "interactive_shell option option"
  google_colab :: "colab_reprs option"
  effects :: "('v, 'h, 'fig) effect list"

definition effect_call ::
  "('v, 'h, 'fig) effect \<Rightarrow> string + 'a \<Rightarrow> ('a, ('v, 'h, 'fig) world) py" where
  "effect_call e r = (\<lambda>w. (lift_ext r, w\<lparr>effects := effects w @ [e]\<rparr>))"

text \<open>\<^verbatim>\<open>display(value, ignore_exceptions, roundtrip_mode)\<close>, lines 58 to 69.\<close>

definition display ::
  "('v, 'h, 'fig) renderer \<Rightarrow> 'v \<Rightarrow> bool \<Rightarrow> bool \<Rightarrow> (unit, ('v, 'h, 'fig) world) py" where
  "display rnd v ignore_exceptions roundtrip_mode =
     (\<lambda>w. if IPython w = None
           then (Inl (RuntimeError ''Cannot use `display` outside of IPython.''), w)
           else py_bind
                  (effect_call (Call_render_to_html v ignore_exceptions roundtrip_mode True)
                     (render_to_html rnd v ignore_exceptions roundtrip_mode True))
                  (\<lambda>html. effect_call (Display_HTML html) (Inr ())) w)"

text \<open>
  \<^verbatim>\<open>show(*args, wrap, space_separated)\<close>, lines 86 to 94.  \<open>separate\<close> is the loop of
  lines 89 to 92.
\<close>

definition separate :: "'v arg list \<Rightarrow> 'v arg list" where
  "separate args = foldl (\<lambda>separated_args a. separated_args @ [a] @ [Str '' '']) [] args"

definition show_args ::
  "('v, 'h, 'fig) renderer \<Rightarrow> 'v arg list \<Rightarrow> bool \<Rightarrow> bool \<Rightarrow> (unit, ('v, 'h, 'fig) world) py" where
  "show_args rnd args wrap space_separated =
     (\<lambda>w. if IPython w = None
           then (Inl (RuntimeError ''Cannot use `show` outside of IPython.''), w)
           else
             (let args' = (if space_separated \<and> args \<noteq> [] then butlast (separate args)
                           else args)
              in py_bind (effect_call (Call_figures_inline args' wrap) (figures_inline rnd args' wrap))
                   (\<lambda>fig. effect_call (Display fig) (Inr ()))) w)"

text \<open>
  Lines 230 to 235 of \<^verbatim>\<open>register_as_default\<close>: a new dict, first the HTML formatter,
  then every other entry of the old dict in the old order.
\<close>

definition reorder_formatters :: "nat \<Rightarrow> (string \<times> nat) list \<Rightarrow> (string \<times> nat) list" where
  "reorder_formatters cur_html_formatter old_formatters =
     fold (\<lambda>(k, v) new. if k \<noteq> ''text/html'' then dict_setitem k v new else new)
       old_formatters (dict_setitem ''text/html'' cur_html_formatter [])"

text \<open>
  Lines 237 to 250: the import of \<^verbatim>\<open>google.colab._reprs\<close> and the three calls; an
  \<^verbatim>\<open>ImportError\<close> anywhere ends the block quietly, a \<^verbatim>\<open>KeyError\<close> of the second or third
  call is passed over, any other exception propagates.
\<close>

definition colab_raise :: "colab_outcome \<Rightarrow> exn" where
  "colab_raise out = (case out of Raises_other x \<Rightarrow> Raised x | _ \<Rightarrow> Raised ''KeyError'')"

definition disable_colab_reprs :: "(unit, ('v, 'h, 'fig) world) py" where
  "disable_colab_reprs =
     (\<lambda>w. case google_colab w of
        None \<Rightarrow> (Inr (), w)
      | Some reprs \<Rightarrow>
          (let w1 = w\<lparr>effects := effects w @ [Call_disable_string_repr]\<rparr> in
           if disable_string_repr reprs = Raises_ImportError then (Inr (), w1)
           else if disable_string_repr reprs \<noteq> Done
           then (Inl (colab_raise (disable_string_repr reprs)), w1)
           else
             (let w2 = w1\<lparr>effects := effects w1 @ [Call_disable_ndarray_repr]\<rparr> in
              if disable_ndarray_repr reprs = Raises_ImportError then (Inr (), w2)
              else if disable_ndarray_repr reprs \<noteq> Done
                      \<and> disable_ndarray_repr reprs \<noteq> Raises_KeyError
              then (Inl (colab_raise (disable_ndarray_repr reprs)), w2)
              else
                (let w3 = w2\<lparr>effects := effects w2 @ [Call_disable_function_repr]\<rparr> in
                 if disable_function_repr reprs = Raises_ImportError then (Inr (), w3)
                 else if disable_function_repr reprs \<noteq> Done
                         \<and> disable_function_repr reprs \<noteq> Raises_KeyError
                 then (Inl (colab_raise (disable_function_repr reprs)), w3)
                 else (Inr (), w3)))))"

text \<open>\<^verbatim>\<open>register_as_default(streaming, compress_html)\<close>, lines 139 to 250.\<close>

definition register_as_default :: "bool \<Rightarrow> bool \<Rightarrow> (unit, ('v, 'h, 'fig) world) py" where
  "register_as_default streaming compress_html =
     (\<lambda>w. case IPython w of
        None \<Rightarrow>
          (Inl (RuntimeError ''Cannot use `register_as_default` outside of IPython.''), w)
      | Some None \<Rightarrow> (Inl (AttributeError ''display_formatter''), w)
      | Some (Some sh) \<Rightarrow>
          (case dict_getitem (formatters sh) ''text/html'' of
             None \<Rightarrow> (Inl (KeyError ''text/html''), w)
           | Some cur_html_formatter \<Rightarrow>
               (let sh1 = for_type cur_html_formatter ''object''
                            (Closure_render_for_ipython streaming compress_html) sh
                in case dict_getitem (formatters sh1) ''text/plain'' of
                     None \<Rightarrow> (Inl (KeyError ''text/plain''), w\<lparr>IPython := Some (Some sh1)\<rparr>)
                   | Some cur_text_formatter \<Rightarrow>
                       (let sh2 = for_type_by_name cur_text_formatter
                                    ''jaxlib.xla_extension'' ''ArrayImpl''
                                    Closure_render_as_text_oneline sh1;
                            sh3 = sh2\<lparr>formatters :=
                                       reorder_formatters cur_html_formatter (formatters sh2)\<rparr>
                        in disable_colab_reprs (w\<lparr>IPython := Some (Some sh3)\<rparr>)))))"

text \<open>\<^verbatim>\<open>register_autovisualize_magic()\<close>, lines 372 to 376.\<close>

definition register_autovisualize_magic :: "(unit, ('v, 'h, 'fig) world) py" where
  "register_autovisualize_magic =
     (\<lambda>w. case IPython w of
        None \<Rightarrow>
          (Inl (RuntimeError
                  ''Cannot use `register_autovisualize_magic` outside of IPython.''), w)
      | Some None \<Rightarrow> (Inl (AttributeError ''register_magics''), w)
      | Some (Some sh) \<Rightarrow>
          (Inr (), w\<lparr>IPython := Some (Some (sh\<lparr>registered_magics :=
                                      registered_magics sh @ [AutovisualizerMagic]\<rparr>))\<rparr>))"

text \<open>\<^verbatim>\<open>register_context_manager_magic()\<close>, lines 388 to 392.\<close>

definition register_context_manager_magic :: "(unit, ('v, 'h, 'fig) world) py" where
  "register_context_manager_magic =
     (\<lambda>w. case IPython w of
        None \<Rightarrow>
          (Inl (RuntimeError
                  ''Cannot use `register_context_manager_magic` outside of IPython.''), w)
      | Some None \<Rightarrow> (Inl (AttributeError ''register_magics''), w)
      | Some (Some sh) \<Rightarrow>
          (Inr (), w\<lparr>IPython := Some (Some (sh\<lparr>registered_magics :=
                                      registered_magics sh @ [ContextManagerMagic]\<rparr>))\<rparr>))"


section \<open>Concrete inputs\<close>

text \<open>
  An engine whose every call succeeds, and values with different sets of
  capabilities: one with a native HTML method and every other capability as well, one
  with only a pretty-printing method, one with no capability at all, and one with a
  root representation method besides its pretty-printing method.
\<close>

definition example_engine :: "(string, nat, nat, nat) engine" where
  "example_engine =
     \<lparr>collecting_deferred_renderings = Inr 5,
      build_foldable_representation = (\<lambda>v ignore_exceptions. Inr 1),
      build_full_line_with_annotations = (\<lambda>ir. Inr (ir + 10)),
      display_streaming_as_root = (\<lambda>ir deferreds roundtrip compressed stealable. Inr (ir + 100)),
      render_to_html_as_root = (\<lambda>ir roundtrip compressed. Inr ''<div/>'')\<rparr>"

definition value_with_html :: "(string, nat, nat) py_value" where
  "value_with_html =
     \<lparr>real_method_repr_html = Some (Inr (PyStr ''<b>own</b>'')),
      is_DisplayObject = False,
      real_method_repr_pretty = True,
      real_method_treescope_repr = True,
      real_method_treescope_root_repr = Some (Inr 7)\<rparr>"

definition value_with_pretty :: "(string, nat, nat) py_value" where
  "value_with_pretty =
     \<lparr>real_method_repr_html = None,
      is_DisplayObject = False,
      real_method_repr_pretty = True,
      real_method_treescope_repr = False,
      real_method_treescope_root_repr = None\<rparr>"

definition plain_value :: "(string, nat, nat) py_value" where
  "plain_value =
     \<lparr>real_method_repr_html = None,
      is_DisplayObject = False,
      real_method_repr_pretty = False,
      real_method_treescope_repr = False,
      real_method_treescope_root_repr = None\<rparr>"

definition value_with_root_repr :: "(string, nat, nat) py_value" where
  "value_with_root_repr =
     \<lparr>real_method_repr_html = None,
      is_DisplayObject = False,
      real_method_repr_pretty = True,
      real_method_treescope_repr = False,
      real_method_treescope_root_repr = Some (Inr 7)\<rparr>"

text \<open>
  A running shell with three formatters, the HTML one not first, and the world around
  it; and a world where the import of IPython failed.
\<close>

definition example_shell :: interactive_shell where
  "example_shell =
     \<lparr>formatters = [(''text/plain'', 0), (''text/html'', 1), (''image/png'', 2)],
      formatter_objects = (\<lambda>addr. \<lparr>type_printers = [], deferred_printers = []\<rparr>),
      registered_magics = []\<rparr>"

definition example_world :: "(nat, string, nat) world" where
  "example_world = \<lparr>IPython = Some (Some example_shell), google_colab = None, effects = []\<rparr>"

definition world_without_IPython :: "(nat, string, nat) world" where
  "world_without_IPython = \<lparr>IPython = None, google_colab = None, effects = []\<rparr>"

definition example_renderer :: "(nat, string, nat) renderer" where
  "example_renderer =
     \<lparr>render_to_html = (\<lambda>v ignore_exceptions roundtrip_mode compressed. Inr ''<div/>''),
      figures_inline = (\<lambda>args wrap. Inr 0)\<rparr>"

text \<open>
  Interpreter states and user code for the magics.  In \<open>example_kernel\<close> the active
  autovisualizer is object 1 and the default of the magic is \<^verbatim>\<open>None\<close>.
  \<open>failing_shell\<close> fails in every expression and every cell, leaving the state alone;
  \<open>none_shell\<close> evaluates every expression to \<^verbatim>\<open>None\<close> and its cells fail;
  \<open>globally_setting_shell\<close> runs cells that call \<^verbatim>\<open>set_globally\<close> on the active
  autovisualizer; \<open>leaking_shell\<close> runs cells that enter a scope of the active
  autovisualizer (with object 7) and end without leaving it.  In
  \<open>kernel_with_default\<close> the default of the magic is object 3.
\<close>

type_synonym example_obj = "(nat, nat, nat) pyobj"

definition example_kernel :: "(example_obj, unit) kernel" where
  "example_kernel =
     \<lparr>active_autovisualizer = \<lparr>permanent = Obj 1, overrides = []\<rparr>,
      default_magic_autovisualizer = \<lparr>permanent = NoneObj, overrides = []\<rparr>,
      user_ns = ()\<rparr>"

definition failing_shell :: "(example_obj, (example_obj, unit) kernel) shell" where
  "failing_shell =
     \<lparr>ev = (\<lambda>line k. (Inl ''NameError'', k)),
      run_cell = (\<lambda>cell k. (Inl ''ValueError'', k)),
      context_manager_of =
        (\<lambda>obj. Inl (TypeError ''object does not support the context manager protocol''))\<rparr>"

definition none_shell :: "(example_obj, (example_obj, unit) kernel) shell" where
  "none_shell =
     \<lparr>ev = (\<lambda>line k. (Inr NoneObj, k)),
      run_cell = (\<lambda>cell k. (Inl ''ValueError'', k)),
      context_manager_of =
        (\<lambda>obj. Inl (TypeError ''object does not support the context manager protocol''))\<rparr>"

definition globally_setting_shell :: "(example_obj, (example_obj, unit) kernel) shell" where
  "globally_setting_shell =
     \<lparr>ev = (\<lambda>line k. (Inr NoneObj, k)),
      run_cell = (\<lambda>cell k.
        (Inr (), k\<lparr>active_autovisualizer := set_globally (Obj 2) (active_autovisualizer k)\<rparr>)),
      context_manager_of =
        (\<lambda>obj. Inl (TypeError ''object does not support the context manager protocol''))\<rparr>"

definition leaking_shell :: "(example_obj, (example_obj, unit) kernel) shell" where
  "leaking_shell =
     \<lparr>ev = (\<lambda>line k. (Inr NoneObj, k)),
      run_cell = (\<lambda>cell k.
        (Inr (), k\<lparr>active_autovisualizer :=
                     snd (set_scoped_enter (Obj 7) (active_autovisualizer k))\<rparr>)),
      context_manager_of =
        (\<lambda>obj. Inl (TypeError ''object does not support the context manager protocol''))\<rparr>"

definition kernel_with_default :: "(example_obj, unit) kernel" where
  "kernel_with_default =
     \<lparr>active_autovisualizer = \<lparr>permanent = Obj 1, overrides = []\<rparr>,
      default_magic_autovisualizer = \<lparr>permanent = Obj 3, overrides = []\<rparr>,
      user_ns = ()\<rparr>"

definition magic_state0 :: "'k \<Rightarrow> ('obj, 'k) magic_state" where
  "magic_state0 k = \<lparr>kernel = k, trace = []\<rparr>"


section \<open>Properties of the dispatch policy\<close>

lemmas py_defs = py_return_def py_raise_def py_bind_def lift_ext_def ext_call_def
  enter_context_def with_ExitStack_def

text \<open>
  The custom path in closed form, without and with streaming.  The hypotheses say
  that the value reaches the custom path: it has no native HTML method, is not a
  display object, and its pretty-printing method (if any) is overridden by one of the
  two Treescope methods.
\<close>

lemma custom_path_not_streaming:
  assumes "real_method_repr_html v = None"
    and "\<not> is_DisplayObject v"
    and "real_method_repr_pretty v \<longrightarrow>
           real_method_treescope_repr v \<or> real_method_treescope_root_repr v \<noteq> None"
  shows "render_for_ipython eng False compress_html v s =
     (case obtain_foldable_ir eng v of
        (Inl x, cs) \<Rightarrow> (Inl (Raised x), s\<lparr>calls := calls s @ cs\<rparr>)
      | (Inr ir, cs) \<Rightarrow>
          (map_sum Raised PyStr (render_to_html_as_root eng ir False compress_html),
           s\<lparr>calls := calls s @ cs @ [Call_render_to_html_as_root ir False compress_html]\<rparr>))"
  using assms
  by (auto simp: render_for_ipython_def obtain_foldable_ir_def py_defs
      split: option.split sum.split)

lemma custom_path_streaming:
  assumes "real_method_repr_html v = None"
    and "\<not> is_DisplayObject v"
    and "real_method_repr_pretty v \<longrightarrow>
           real_method_treescope_repr v \<or> real_method_treescope_root_repr v \<noteq> None"
  shows "render_for_ipython eng True compress_html v s =
     (case collecting_deferred_renderings eng of
        Inl x \<Rightarrow> (Inl (Raised x), s\<lparr>calls := calls s @ [Enter_collecting_deferred_renderings]\<rparr>)
      | Inr d \<Rightarrow>
         (case obtain_foldable_ir eng v of
            (Inl x, cs) \<Rightarrow>
              (Inl (Raised x),
               s\<lparr>calls := calls s @ [Enter_collecting_deferred_renderings] @ cs
                     @ [Exit_collecting_deferred_renderings]\<rparr>)
          | (Inr ir, cs) \<Rightarrow>
              (map_sum Raised PyObj
                 (display_streaming_as_root eng ir (Some d) False compress_html True),
               s\<lparr>calls := calls s @ [Enter_collecting_deferred_renderings] @ cs
                     @ [Call_display_streaming_as_root ir (Some d) False compress_html True,
                        Exit_collecting_deferred_renderings]\<rparr>)))"
  using assms
  by (auto simp: render_for_ipython_def obtain_foldable_ir_def py_defs
      split: option.split sum.split)

text \<open>
  C1.  A value with a genuine \<^verbatim>\<open>_repr_html_\<close> method: the policy calls that method and
  returns what it returns (or raises what it raises).  This is the only call made: the
  rendering engine is never invoked, whatever the streaming and compression settings
  and whatever other capabilities the value has.
\<close>

theorem native_html_defers:
  "real_method_repr_html v = Some m \<Longrightarrow>
   render_for_ipython eng streaming compress_html v s
     = (lift_ext m, s\<lparr>calls := calls s @ [Call_repr_html]\<rparr>)
   \<and> list_all (\<lambda>c. \<not> is_engine_call c)
        (calls (snd (render_for_ipython eng streaming compress_html v frame0)))"
  by (simp add: render_for_ipython_def ext_call_def frame0_def)

theorem native_html_defers_witness:
  "real_method_repr_html value_with_html = Some (Inr (PyStr ''<b>own</b>''))
   \<and> real_method_treescope_repr value_with_html
   \<and> real_method_repr_pretty value_with_html
   \<and> render_for_ipython example_engine True True value_with_html frame0
       = (Inr (PyStr ''<b>own</b>''), \<lparr>calls = [Call_repr_html], exit_stack = []\<rparr>)"
  using native_html_defers
          [where v = value_with_html and m = "Inr (PyStr ''<b>own</b>'')"
             and eng = example_engine and streaming = True and compress_html = True
             and s = frame0]
  by (simp add: value_with_html_def frame0_def lift_ext_def)

text \<open>
  C2.  A value without a genuine \<^verbatim>\<open>_repr_html_\<close> method: the policy returns \<^verbatim>\<open>None\<close>
  exactly when the value is a display object, or has a genuine \<^verbatim>\<open>_repr_pretty_\<close>
  method and neither \<^verbatim>\<open>__treescope_root_repr__\<close> nor \<^verbatim>\<open>__treescope_repr__\<close>; and
  exactly then it returns \<^verbatim>\<open>None\<close> without having called anything.
\<close>

theorem suppression_condition:
  "real_method_repr_html v = None \<Longrightarrow>
   ((fst (render_for_ipython eng streaming compress_html v s) = Inr PyNone)
     = (is_DisplayObject v \<or>
        (real_method_repr_pretty v \<and> real_method_treescope_root_repr v = None
           \<and> \<not> real_method_treescope_repr v)))
   \<and> ((render_for_ipython eng streaming compress_html v s = (Inr PyNone, s))
     = (is_DisplayObject v \<or>
        (real_method_repr_pretty v \<and> real_method_treescope_root_repr v = None
           \<and> \<not> real_method_treescope_repr v)))"
  by (auto simp: render_for_ipython_def py_defs
      split: option.splits sum.splits prod.splits if_splits)

theorem suppression_condition_witness:
  "real_method_repr_html value_with_pretty = None
   \<and> render_for_ipython example_engine True True value_with_pretty frame0 = (Inr PyNone, frame0)
   \<and> real_method_repr_html value_with_root_repr = None
   \<and> fst (render_for_ipython example_engine True True value_with_root_repr frame0) \<noteq> Inr PyNone"
  using suppression_condition
          [where v = value_with_pretty and eng = example_engine and streaming = True
             and compress_html = True and s = frame0]
        suppression_condition
          [where v = value_with_root_repr and eng = example_engine and streaming = True
             and compress_html = True and s = frame0]
  by (simp add: value_with_pretty_def value_with_root_repr_def)

text \<open>
  C3.  On the custom path (and, with streaming, once the collection of deferred
  renderings has been entered):
  \<^item> if the value has a genuine \<^verbatim>\<open>__treescope_root_repr__\<close> method, that method is
    called with no arguments, the engine is not asked to build a representation,
    and what the method returns is the representation handed to the serializer;
  \<^item> otherwise the engine is asked to build the representation of the value with
    \<^verbatim>\<open>ignore_exceptions=True\<close>, and never with \<^verbatim>\<open>ignore_exceptions=False\<close>; the
    result, wrapped by \<^verbatim>\<open>build_full_line_with_annotations\<close>, is the representation
    handed to the serializer.
\<close>

theorem custom_path_representation:
  assumes "real_method_repr_html v = None"
    and "\<not> is_DisplayObject v"
    and "real_method_repr_pretty v \<longrightarrow>
           real_method_treescope_repr v \<or> real_method_treescope_root_repr v \<noteq> None"
    and "streaming \<longrightarrow> collecting_deferred_renderings eng = Inr d"
  shows
    "(real_method_treescope_root_repr v = Some (Inr ir) \<longrightarrow>
        calls (snd (render_for_ipython eng streaming compress_html v frame0)) =
          (if streaming
           then [Enter_collecting_deferred_renderings, Call_treescope_root_repr,
                 Call_display_streaming_as_root ir (Some d) False compress_html True,
                 Exit_collecting_deferred_renderings]
           else [Call_treescope_root_repr,
                 Call_render_to_html_as_root ir False compress_html]))
     \<and> (real_method_treescope_root_repr v \<noteq> None \<longrightarrow>
          Call_treescope_root_repr
            \<in> set (calls (snd (render_for_ipython eng streaming compress_html v frame0)))
          \<and> (\<forall>v' b. Call_build_foldable_representation v' b
             \<notin> set (calls (snd (render_for_ipython eng streaming compress_html v frame0)))))
     \<and> (real_method_treescope_root_repr v = None \<longrightarrow>
          Call_build_foldable_representation v True
            \<in> set (calls (snd (render_for_ipython eng streaming compress_html v frame0)))
          \<and> (\<forall>v'. Call_build_foldable_representation v' False
                \<notin> set (calls (snd (render_for_ipython eng streaming compress_html v frame0)))))
     \<and> (real_method_treescope_root_repr v = None
          \<and> build_foldable_representation eng v True = Inr raw
          \<and> build_full_line_with_annotations eng raw = Inr ir \<longrightarrow>
        calls (snd (render_for_ipython eng streaming compress_html v frame0)) =
          (if streaming
           then [Enter_collecting_deferred_renderings,
                 Call_build_foldable_representation v True,
                 Call_build_full_line_with_annotations raw,
                 Call_display_streaming_as_root ir (Some d) False compress_html True,
                 Exit_collecting_deferred_renderings]
           else [Call_build_foldable_representation v True,
                 Call_build_full_line_with_annotations raw,
                 Call_render_to_html_as_root ir False compress_html]))"
proof (cases streaming)
  case True
  with assms(4) have d: "collecting_deferred_renderings eng = Inr d" by simp
  from True show ?thesis
    by (auto simp: custom_path_streaming [OF assms(1-3)] d obtain_foldable_ir_def frame0_def
        split: option.split sum.split)
next
  case False
  then show ?thesis
    by (auto simp: custom_path_not_streaming [OF assms(1-3)] obtain_foldable_ir_def frame0_def
        split: option.split sum.split)
qed

theorem custom_path_representation_witness:
  "calls (snd (render_for_ipython example_engine True False value_with_root_repr frame0)) =
     [Enter_collecting_deferred_renderings, Call_treescope_root_repr,
      Call_display_streaming_as_root 7 (Some 5) False False True,
      Exit_collecting_deferred_renderings]
   \<and> calls (snd (render_for_ipython example_engine False True plain_value frame0)) =
     [Call_build_foldable_representation plain_value True,
      Call_build_full_line_with_annotations 1,
      Call_render_to_html_as_root 11 False True]"
proof
  show "calls (snd (render_for_ipython example_engine True False value_with_root_repr frame0)) =
     [Enter_collecting_deferred_renderings, Call_treescope_root_repr,
      Call_display_streaming_as_root 7 (Some 5) False False True,
      Exit_collecting_deferred_renderings]"
    using custom_path_representation
          [where v = value_with_root_repr and streaming = True and eng = example_engine
             and d = 5 and ir = 7 and raw = 0 and compress_html = False]
    by (simp add: example_engine_def value_with_root_repr_def)
  show "calls (snd (render_for_ipython example_engine False True plain_value frame0)) =
     [Call_build_foldable_representation plain_value True,
      Call_build_full_line_with_annotations 1,
      Call_render_to_html_as_root 11 False True]"
    using custom_path_representation
          [where v = plain_value and streaming = False and eng = example_engine
             and d = 5 and raw = 1 and ir = 11 and compress_html = True]
    by (simp add: example_engine_def plain_value_def)
qed

text \<open>
  C4.  On the custom path, for the representation \<open>ir\<close> obtained as in C3:
  \<^item> with streaming (and the collection \<open>d\<close> of deferred renderings entered), the
    policy calls \<^verbatim>\<open>display_streaming_as_root\<close> on \<open>ir\<close> and \<open>d\<close> with
    \<^verbatim>\<open>roundtrip=False\<close>, the registered compression setting and \<^verbatim>\<open>stealable=True\<close>,
    and returns the object that call returns;
  \<^item> without streaming it returns the string that \<^verbatim>\<open>render_to_html_as_root\<close> returns
    for \<open>ir\<close>, and \<^verbatim>\<open>display_streaming_as_root\<close> is not called at all.
\<close>

theorem custom_path_result:
  assumes "real_method_repr_html v = None"
    and "\<not> is_DisplayObject v"
    and "real_method_repr_pretty v \<longrightarrow>
           real_method_treescope_repr v \<or> real_method_treescope_root_repr v \<noteq> None"
    and "real_method_treescope_root_repr v = Some (Inr ir)
         \<or> (real_method_treescope_root_repr v = None
             \<and> (\<exists>raw. build_foldable_representation eng v True = Inr raw
                      \<and> build_full_line_with_annotations eng raw = Inr ir))"
  shows
    "(collecting_deferred_renderings eng = Inr d \<longrightarrow>
        fst (render_for_ipython eng True compress_html v s)
          = map_sum Raised PyObj
              (display_streaming_as_root eng ir (Some d) False compress_html True)
        \<and> Call_display_streaming_as_root ir (Some d) False compress_html True
            \<in> set (calls (snd (render_for_ipython eng True compress_html v s))))
     \<and> fst (render_for_ipython eng False compress_html v s)
          = map_sum Raised PyStr (render_to_html_as_root eng ir False compress_html)
     \<and> (\<forall>ir' d' r' c' st. Call_display_streaming_as_root ir' d' r' c' st
           \<notin> set (calls (snd (render_for_ipython eng False compress_html v frame0))))"
proof -
  from assms(4) obtain cs where ir: "obtain_foldable_ir eng v = (Inr ir, cs)"
    and cs: "\<forall>ir' d' r' c' st. Call_display_streaming_as_root ir' d' r' c' st \<notin> set cs"
    by (auto simp: obtain_foldable_ir_def)
  show ?thesis
    unfolding custom_path_streaming [OF assms(1-3)] custom_path_not_streaming [OF assms(1-3)] ir
    using cs by (simp add: frame0_def)
qed

theorem custom_path_result_witness:
  "fst (render_for_ipython example_engine True True plain_value frame0) = Inr (PyObj 111)
   \<and> Call_display_streaming_as_root 11 (Some 5) False True True
        \<in> set (calls (snd (render_for_ipython example_engine True True plain_value frame0)))
   \<and> fst (render_for_ipython example_engine False True plain_value frame0)
        = Inr (PyStr ''<div/>'')"
  using custom_path_result
          [where v = plain_value and ir = 11 and eng = example_engine and d = 5
             and compress_html = True and s = frame0]
  by (simp add: example_engine_def plain_value_def)

text \<open>
  C10.  Without streaming, the assertion \<^verbatim>\<open>assert deferreds is None\<close> never fails:
  for every engine, value, compression setting and starting state the policy does not
  raise \<^verbatim>\<open>AssertionError\<close>, and the collection of deferred renderings is never
  entered.
\<close>

theorem assertion_never_fails:
  "fst (render_for_ipython eng False compress_html v s) \<noteq> Inl AssertionError
   \<and> Enter_collecting_deferred_renderings
       \<notin> set (calls (snd (render_for_ipython eng False compress_html v frame0)))"
  by (auto simp: render_for_ipython_def py_defs frame0_def
      split: option.splits sum.splits prod.splits if_splits)

theorem assertion_never_fails_witness:
  "fst (render_for_ipython example_engine False True plain_value frame0) \<noteq> Inl AssertionError
   \<and> Enter_collecting_deferred_renderings
       \<notin> set (calls (snd (render_for_ipython example_engine False True plain_value frame0)))
   \<and> fst (render_for_ipython example_engine False True plain_value frame0)
       = Inr (PyStr ''<div/>'')"
  using assertion_never_fails
          [where eng = example_engine and compress_html = True and v = plain_value
             and s = frame0]
  by (simp add: render_for_ipython_def py_defs example_engine_def plain_value_def frame0_def)


section \<open>Properties of the entry points\<close>

text \<open>Assigning to a key that a dict does not hold appends the entry.\<close>

lemma dict_setitem_fresh: "k \<notin> fst ` set d \<Longrightarrow> dict_setitem k v d = d @ [(k, v)]"
  by (induction d) auto

lemma reorder_fold:
  "distinct (map fst xs) \<Longrightarrow> fst ` set xs \<inter> fst ` set acc \<subseteq> {h} \<Longrightarrow>
   fold (\<lambda>(k, v) new. if k \<noteq> h then dict_setitem k v new else new) xs acc
     = acc @ filter (\<lambda>(k, v). k \<noteq> h) xs"
proof (induction xs arbitrary: acc)
  case Nil
  then show ?case by simp
next
  case (Cons x xs)
  obtain k v where x: "x = (k, v)" by (cases x)
  show ?case
  proof (cases "k = h")
    case True
    with Cons.prems have "fst ` set xs \<inter> fst ` set acc \<subseteq> {h}" by auto
    with Cons.IH [of acc] Cons.prems True x show ?thesis by simp
  next
    case False
    with Cons.prems x have fresh: "k \<notin> fst ` set acc" by auto
    from Cons.prems x have "fst ` set xs \<inter> fst ` set (acc @ [(k, v)]) \<subseteq> {h}"
      by (auto simp: image_iff)
    with Cons.IH [of "acc @ [(k, v)]"] Cons.prems False x fresh show ?thesis
      by (simp add: dict_setitem_fresh)
  qed
qed

lemma reorder_formatters_eq:
  "distinct (map fst old) \<Longrightarrow>
   reorder_formatters cur old
     = (''text/html'', cur) # filter (\<lambda>(k, v). k \<noteq> ''text/html'') old"
  using reorder_fold [of old "[(''text/html'', cur)]" "''text/html''"]
  by (simp add: reorder_formatters_def)

lemma map_of_filter_other:
  "k \<noteq> h \<Longrightarrow> map_of (filter (\<lambda>(k, v). k \<noteq> h) old) k = map_of old k"
  by (induction old) auto

lemma map_of_reordered:
  "map_of old h = Some cur \<Longrightarrow>
   map_of ((h, cur) # filter (\<lambda>(k, v). k \<noteq> h) old) k = map_of old k"
  by (cases "k = h") (simp_all add: map_of_filter_other)

lemma IPython_disable_colab_reprs: "IPython (snd (disable_colab_reprs w)) = IPython w"
  by (simp add: disable_colab_reprs_def Let_def split: option.split)

text \<open>
  C5.  In a running shell whose formatter dict holds \<^verbatim>\<open>text/html\<close> and \<^verbatim>\<open>text/plain\<close>,
  \<^verbatim>\<open>register_as_default\<close> leaves a formatter dict whose first entry is \<^verbatim>\<open>text/html\<close>
  with the formatter object it had, followed by every other entry of the old dict,
  with its old formatter object, in the old order.  So every key is still mapped to the
  formatter object it was mapped to: no entry is dropped or replaced.
\<close>

theorem register_as_default_reorders:
  assumes "IPython w = Some (Some sh)"
    and "distinct (map fst (formatters sh))"
    and "dict_getitem (formatters sh) ''text/html'' = Some html_formatter"
    and "dict_getitem (formatters sh) ''text/plain'' = Some text_formatter"
  shows "map_option (map_option formatters)
           (IPython (snd (register_as_default streaming compress_html w)))
         = Some (Some ((''text/html'', html_formatter)
                        # filter (\<lambda>(k, v). k \<noteq> ''text/html'') (formatters sh)))
     \<and> map_option (map_option (\<lambda>sh'. dict_getitem (formatters sh')))
           (IPython (snd (register_as_default streaming compress_html w)))
         = Some (Some (dict_getitem (formatters sh)))"
proof -
  have f: "formatters (for_type a t p s) = formatters s"
    "formatters (for_type_by_name a m n p s) = formatters s" for a t p m n s
    by (simp_all add: for_type_def for_type_by_name_def)
  have "dict_getitem ((''text/html'', html_formatter)
          # filter (\<lambda>(k, v). k \<noteq> ''text/html'') (formatters sh))
        = dict_getitem (formatters sh)"
    using assms(3) map_of_reordered [of "formatters sh" "''text/html''" html_formatter]
    unfolding dict_getitem_def by (intro ext) simp
  then show ?thesis
    using assms
    by (simp add: register_as_default_def Let_def f IPython_disable_colab_reprs
        reorder_formatters_eq)
qed

theorem register_as_default_reorders_witness:
  "map_option (map_option formatters)
     (IPython (snd (register_as_default True True example_world)))
   = Some (Some [(''text/html'', 1), (''text/plain'', 0), (''image/png'', 2)])"
  using register_as_default_reorders
          [where w = example_world and sh = example_shell and html_formatter = 1
             and text_formatter = 0 and streaming = True and compress_html = True]
  by (simp add: example_world_def example_shell_def dict_getitem_def)

text \<open>
  C8.  With the import of IPython failed, each of \<^verbatim>\<open>display\<close>, \<^verbatim>\<open>show\<close>,
  \<^verbatim>\<open>register_as_default\<close>, \<^verbatim>\<open>register_autovisualize_magic\<close> and
  \<^verbatim>\<open>register_context_manager_magic\<close> raises \<^verbatim>\<open>RuntimeError\<close> and leaves the world as
  it found it: nothing was called, displayed or registered.
\<close>

theorem host_unavailable:
  "IPython w = None \<Longrightarrow>
     display rnd v ignore_exceptions roundtrip_mode w
       = (Inl (RuntimeError ''Cannot use `display` outside of IPython.''), w)
   \<and> show_args rnd args wrap space_separated w
       = (Inl (RuntimeError ''Cannot use `show` outside of IPython.''), w)
   \<and> register_as_default streaming compress_html w
       = (Inl (RuntimeError ''Cannot use `register_as_default` outside of IPython.''), w)
   \<and> register_autovisualize_magic w
       = (Inl (RuntimeError ''Cannot use `register_autovisualize_magic` outside of IPython.''), w)
   \<and> register_context_manager_magic w
       = (Inl (RuntimeError ''Cannot use `register_context_manager_magic` outside of IPython.''), w)"
  by (simp add: display_def show_args_def register_as_default_def
      register_autovisualize_magic_def register_context_manager_magic_def)

theorem host_unavailable_witness:
  "IPython world_without_IPython = None
   \<and> display example_renderer 3 False False world_without_IPython
       = (Inl (RuntimeError ''Cannot use `display` outside of IPython.''), world_without_IPython)
   \<and> show_args example_renderer [Val 3, Str ''a''] False True world_without_IPython
       = (Inl (RuntimeError ''Cannot use `show` outside of IPython.''), world_without_IPython)
   \<and> fst (register_as_default True True world_without_IPython)
       = Inl (RuntimeError ''Cannot use `register_as_default` outside of IPython.'')
   \<and> fst (register_autovisualize_magic world_without_IPython)
       = Inl (RuntimeError ''Cannot use `register_autovisualize_magic` outside of IPython.'')
   \<and> fst (register_context_manager_magic world_without_IPython)
       = Inl (RuntimeError ''Cannot use `register_context_manager_magic` outside of IPython.'')"
  using host_unavailable
          [where w = world_without_IPython and rnd = example_renderer and v = 3
             and ignore_exceptions = False and roundtrip_mode = False
             and args = "[Val 3, Str ''a'']" and wrap = False and space_separated = True
             and streaming = True and compress_html = True]
  by (simp add: world_without_IPython_def)



section \<open>Properties of the cell magics\<close>

lemmas magic_defs = py_return_def py_raise_def py_bind_def lift_ext_def shell_call_def
  py_with_def active_set_scoped_enter_def active_set_scoped_exit_def set_scoped_enter_def
  set_scoped_exit_def magic_state0_def

text \<open>
  C9.  If evaluating the line's expression fails, in \<^verbatim>\<open>%%with\<close> or in
  \<^verbatim>\<open>%%autovisualize\<close> with a line that is not blank, the magic raises that same
  failure, and the evaluation is all that happened: no scope was entered, the cell was
  not run, and the interpreter state is the one the evaluation left.
\<close>

theorem failing_line_expression:
  "(ev shw linew kw = (Inl xw, kw') \<longrightarrow>
      with_magic shw linew cellw (magic_state0 kw)
        = (Inl (Raised xw), \<lparr>kernel = kw', trace = [Shell_ev linew]\<rparr>))
   \<and> (py_strip line \<noteq> [] \<and> ev sh line k = (Inl x, k') \<longrightarrow>
      autovisualize sh line cell (magic_state0 k)
        = (Inl (Raised x), \<lparr>kernel = k', trace = [Shell_ev line]\<rparr>))"
  by (simp add: with_magic_def autovisualize_def magic_defs)

theorem failing_line_expression_witness:
  "with_magic failing_shell [120] [121] (magic_state0 example_kernel)
     = (Inl (Raised ''NameError''), \<lparr>kernel = example_kernel, trace = [Shell_ev [120]]\<rparr>)
   \<and> py_strip [120] \<noteq> []
   \<and> autovisualize failing_shell [120] [121] (magic_state0 example_kernel)
     = (Inl (Raised ''NameError''), \<lparr>kernel = example_kernel, trace = [Shell_ev [120]]\<rparr>)"
  using failing_line_expression
          [where shw = failing_shell and linew = "[120]" and kw = example_kernel
             and xw = "''NameError''" and kw' = example_kernel and cellw = "[121]"
             and sh = failing_shell and line = "[120]" and k = example_kernel
             and x = "''NameError''" and k' = example_kernel and cell = "[121]"]
  by (simp add: failing_shell_def py_strip_def py_isspace_def)

text \<open>
  What \<^verbatim>\<open>%%autovisualize\<close> computes once the autovisualizer \<open>a\<close> has been obtained in
  the state \<open>k'\<close> (by evaluating a line that is not blank, or by reading the default
  for a blank one).  With \<open>av\<close> the visualizer after the replacement of \<^verbatim>\<open>None\<close>, the
  cell is run in \<open>kb\<close>, the state \<open>k'\<close> with \<open>av\<close> pushed; \<open>r\<close> is how the cell ends
  and \<open>kc\<close> the state it leaves.  The release of the scope then either pops the top
  override, and the magic ends as the cell did, or fails.
\<close>

lemma autovisualize_run:
  fixes a :: "('v, 'p, 'r) pyobj"
  assumes "(py_strip line \<noteq> [] \<and> ev sh line k = (Inr a, k') \<and> pre = [Shell_ev line])
           \<or> (py_strip line = [] \<and> a = get (default_magic_autovisualizer k) \<and> k' = k
               \<and> pre = [Get_default_magic_autovisualizer])"
    and "av = (if a = NoneObj then Callable (\<lambda>value path. None) else a)"
    and "kb = k'\<lparr>active_autovisualizer :=
                  (active_autovisualizer k')
                    \<lparr>overrides := av # overrides (active_autovisualizer k')\<rparr>\<rparr>"
    and "run_cell sh cell kb = (r, kc)"
  shows "autovisualize sh line cell (magic_state0 k) =
     (if length (overrides (active_autovisualizer kc))
           = Suc (length (overrides (active_autovisualizer k')))
      then (lift_ext r,
            \<lparr>kernel = kc\<lparr>active_autovisualizer :=
                           (active_autovisualizer kc)
                             \<lparr>overrides := tl (overrides (active_autovisualizer kc))\<rparr>\<rparr>,
             trace = pre @ [Enter_set_scoped av, Shell_run_cell cell, Exit_set_scoped]\<rparr>)
      else (Inl InvariantViolation,
            \<lparr>kernel = kc,
             trace = pre @ [Enter_set_scoped av, Shell_run_cell cell, Exit_set_scoped]\<rparr>))"
proof -
  have body: "py_with (active_set_scoped_enter av) active_set_scoped_exit
          (shell_call (Shell_run_cell cell) (run_cell sh cell)) \<lparr>kernel = k', trace = t\<rparr>
        = (if length (overrides (active_autovisualizer kc))
                = Suc (length (overrides (active_autovisualizer k')))
           then (lift_ext r,
                 \<lparr>kernel = kc\<lparr>active_autovisualizer :=
                                (active_autovisualizer kc)
                                  \<lparr>overrides := tl (overrides (active_autovisualizer kc))\<rparr>\<rparr>,
                  trace = t @ [Enter_set_scoped av, Shell_run_cell cell, Exit_set_scoped]\<rparr>)
           else (Inl InvariantViolation,
                 \<lparr>kernel = kc,
                  trace = t @ [Enter_set_scoped av, Shell_run_cell cell, Exit_set_scoped]\<rparr>))"
    for t
    using assms(4) unfolding assms(3)
    by (cases r)
       (simp_all add: py_with_def active_set_scoped_enter_def active_set_scoped_exit_def
          set_scoped_enter_def set_scoped_exit_def shell_call_def lift_ext_def)
  have resolve: "(if py_strip line \<noteq> [] then shell_call (Shell_ev line) (ev sh line)
        else (\<lambda>s. (Inr (get (default_magic_autovisualizer (kernel s))),
                   s\<lparr>trace := trace s @ [Get_default_magic_autovisualizer]\<rparr>)))
       (magic_state0 k) = (Inr a, \<lparr>kernel = k', trace = pre\<rparr>)"
    using assms(1) by (auto simp: shell_call_def lift_ext_def magic_state0_def)
  show ?thesis
    unfolding autovisualize_def py_bind_def py_return_def resolve
    by (simp add: assms(2) [symmetric] body)
qed


text \<open>
  C6.  \<^verbatim>\<open>%%autovisualize\<close>: if the line is not blank, the shell evaluates it to obtain
  the autovisualizer; if the line is blank, the autovisualizer is read from
  \<^verbatim>\<open>default_magic_autovisualizer\<close>.  In either case \<^verbatim>\<open>None\<close> is replaced by the
  function that returns \<^verbatim>\<open>None\<close> for every value and path.  The visualizer \<open>av\<close> so
  chosen is in force while the cell runs: the cell is run in the state \<open>kb\<close>, where
  \<^verbatim>\<open>active_autovisualizer.get()\<close> is \<open>av\<close>, and the outcome and final state of the
  magic are those of that run of the cell, followed by the release of the scope.
\<close>

theorem autovisualizer_in_force:
  fixes a :: "('v, 'p, 'r) pyobj"
  assumes "(py_strip line \<noteq> [] \<and> ev sh line k = (Inr a, k') \<and> pre = [Shell_ev line])
           \<or> (py_strip line = [] \<and> a = get (default_magic_autovisualizer k) \<and> k' = k
               \<and> pre = [Get_default_magic_autovisualizer])"
    and "av = (if a = NoneObj then Callable (\<lambda>value path. None) else a)"
    and "kb = k'\<lparr>active_autovisualizer :=
                  (active_autovisualizer k')
                    \<lparr>overrides := av # overrides (active_autovisualizer k')\<rparr>\<rparr>"
    and "run_cell sh cell kb = (r, kc)"
  shows "get (active_autovisualizer kb) = av
     \<and> autovisualize sh line cell (magic_state0 k) =
        (if length (overrides (active_autovisualizer kc))
              = Suc (length (overrides (active_autovisualizer k')))
         then (lift_ext r,
               \<lparr>kernel = kc\<lparr>active_autovisualizer :=
                              (active_autovisualizer kc)
                                \<lparr>overrides := tl (overrides (active_autovisualizer kc))\<rparr>\<rparr>,
                trace = pre @ [Enter_set_scoped av, Shell_run_cell cell, Exit_set_scoped]\<rparr>)
         else (Inl InvariantViolation,
               \<lparr>kernel = kc,
                trace = pre @ [Enter_set_scoped av, Shell_run_cell cell, Exit_set_scoped]\<rparr>))"
  using autovisualize_run [OF assms] by (simp add: assms(3) get_def)

theorem autovisualizer_in_force_witness:
  "py_strip [120] \<noteq> []
   \<and> autovisualize none_shell [120] [121] (magic_state0 example_kernel)
       = (Inl (Raised ''ValueError''),
          \<lparr>kernel = example_kernel,
           trace = [Shell_ev [120], Enter_set_scoped (Callable (\<lambda>value path. None)),
                    Shell_run_cell [121], Exit_set_scoped]\<rparr>)
   \<and> py_strip [32, 9] = []
   \<and> autovisualize none_shell [32, 9] [121] (magic_state0 kernel_with_default)
       = (Inl (Raised ''ValueError''),
          \<lparr>kernel = kernel_with_default,
           trace = [Get_default_magic_autovisualizer, Enter_set_scoped (Obj 3),
                    Shell_run_cell [121], Exit_set_scoped]\<rparr>)"
proof -
  have "autovisualize none_shell [120] [121] (magic_state0 example_kernel)
       = (Inl (Raised ''ValueError''),
          \<lparr>kernel = example_kernel,
           trace = [Shell_ev [120], Enter_set_scoped (Callable (\<lambda>value path. None)),
                    Shell_run_cell [121], Exit_set_scoped]\<rparr>)"
    using autovisualizer_in_force
          [where line = "[120]" and sh = none_shell and k = example_kernel and a = NoneObj
             and k' = example_kernel and pre = "[Shell_ev [120]]"
             and av = "Callable (\<lambda>value path. None)"
             and kb = "example_kernel\<lparr>active_autovisualizer :=
                         \<lparr>permanent = Obj 1, overrides = [Callable (\<lambda>value path. None)]\<rparr>\<rparr>"
             and cell = "[121]" and r = "Inl ''ValueError''"
             and kc = "example_kernel\<lparr>active_autovisualizer :=
                         \<lparr>permanent = Obj 1, overrides = [Callable (\<lambda>value path. None)]\<rparr>\<rparr>"]
    by (simp add: none_shell_def example_kernel_def get_def py_strip_def py_isspace_def
        lift_ext_def)
  moreover have "autovisualize none_shell [32, 9] [121] (magic_state0 kernel_with_default)
       = (Inl (Raised ''ValueError''),
          \<lparr>kernel = kernel_with_default,
           trace = [Get_default_magic_autovisualizer, Enter_set_scoped (Obj 3),
                    Shell_run_cell [121], Exit_set_scoped]\<rparr>)"
    using autovisualizer_in_force
          [where line = "[32, 9]" and sh = none_shell and k = kernel_with_default
             and a = "Obj 3" and k' = kernel_with_default
             and pre = "[Get_default_magic_autovisualizer]" and av = "Obj 3"
             and kb = "kernel_with_default\<lparr>active_autovisualizer :=
                         \<lparr>permanent = Obj 1, overrides = [Obj 3]\<rparr>\<rparr>"
             and cell = "[121]" and r = "Inl ''ValueError''"
             and kc = "kernel_with_default\<lparr>active_autovisualizer :=
                         \<lparr>permanent = Obj 1, overrides = [Obj 3]\<rparr>\<rparr>"]
    by (simp add: none_shell_def kernel_with_default_def get_def py_strip_def py_isspace_def
        lift_ext_def)
  ultimately show ?thesis
    by (simp add: py_strip_def py_isspace_def)
qed

text \<open>
  C7, as amended.  The visualizer \<open>av\<close> is an override of \<^verbatim>\<open>active_autovisualizer\<close>
  while the cell body runs (in \<open>kb\<close>, where \<^verbatim>\<open>get()\<close> is \<open>av\<close>).  Let the body end, by
  returning or by raising (\<open>r\<close>), in the state \<open>kc\<close>.
  \<^item> The magic ends as the body did, with the override stack what it was before the
    scope was entered, exactly when the body ends with that stack and one entry on top
    of it (it has left every scope it entered).
  \<^item> In that case \<^verbatim>\<open>get()\<close> returns after the cell what it returned before the scope
    was entered exactly when an outer override is active or the body has not replaced
    the permanent value.
  \<^item> When the body ends with another number of overrides on the stack, the release
    fails with an invariant violation and nothing is popped.
\<close>

theorem scoped_override_popped:
  fixes a :: "('v, 'p, 'r) pyobj"
  assumes "(py_strip line \<noteq> [] \<and> ev sh line k = (Inr a, k'))
           \<or> (py_strip line = [] \<and> a = get (default_magic_autovisualizer k) \<and> k' = k)"
    and "av = (if a = NoneObj then Callable (\<lambda>value path. None) else a)"
    and "kb = k'\<lparr>active_autovisualizer :=
                  (active_autovisualizer k')
                    \<lparr>overrides := av # overrides (active_autovisualizer k')\<rparr>\<rparr>"
    and "run_cell sh cell kb = (r, kc)"
  shows "get (active_autovisualizer kb) = av
     \<and> ((\<exists>x. overrides (active_autovisualizer kc) = x # overrides (active_autovisualizer k'))
          = (fst (autovisualize sh line cell (magic_state0 k)) = lift_ext r
             \<and> overrides (active_autovisualizer
                   (kernel (snd (autovisualize sh line cell (magic_state0 k)))))
                 = overrides (active_autovisualizer k')))
     \<and> ((\<exists>x. overrides (active_autovisualizer kc) = x # overrides (active_autovisualizer k'))
          \<longrightarrow> (get (active_autovisualizer
                     (kernel (snd (autovisualize sh line cell (magic_state0 k)))))
                   = get (active_autovisualizer k'))
               = (overrides (active_autovisualizer k') \<noteq> []
                  \<or> permanent (active_autovisualizer kc)
                      = permanent (active_autovisualizer k')))
     \<and> (length (overrides (active_autovisualizer kc))
            \<noteq> Suc (length (overrides (active_autovisualizer k')))
          \<longrightarrow> fst (autovisualize sh line cell (magic_state0 k)) = Inl InvariantViolation
              \<and> kernel (snd (autovisualize sh line cell (magic_state0 k))) = kc)"
proof -
  from assms(1) obtain pre :: "('v, 'p, 'r) pyobj magic_event list"
    where "(py_strip line \<noteq> [] \<and> ev sh line k = (Inr a, k') \<and> pre = [Shell_ev line])
           \<or> (py_strip line = [] \<and> a = get (default_magic_autovisualizer k) \<and> k' = k
               \<and> pre = [Get_default_magic_autovisualizer])"
    by blast
  note run = autovisualize_run [OF this assms(2-4)]
  have raised: "lift_ext r \<noteq> Inl InvariantViolation"
    by (cases r) (simp_all add: lift_ext_def)
  have "get (active_autovisualizer kb) = av"
    by (simp add: assms(3) get_def)
  moreover have "(\<exists>x. overrides (active_autovisualizer kc)
                      = x # overrides (active_autovisualizer k'))
          = (fst (autovisualize sh line cell (magic_state0 k)) = lift_ext r
             \<and> overrides (active_autovisualizer
                   (kernel (snd (autovisualize sh line cell (magic_state0 k)))))
                 = overrides (active_autovisualizer k'))"
    unfolding run using raised
    by (cases "overrides (active_autovisualizer kc)") auto
  moreover have "(\<exists>x. overrides (active_autovisualizer kc)
                       = x # overrides (active_autovisualizer k'))
          \<longrightarrow> (get (active_autovisualizer
                     (kernel (snd (autovisualize sh line cell (magic_state0 k)))))
                   = get (active_autovisualizer k'))
               = (overrides (active_autovisualizer k') \<noteq> []
                  \<or> permanent (active_autovisualizer kc)
                      = permanent (active_autovisualizer k'))"
    unfolding run
    by (cases "overrides (active_autovisualizer k')") (auto simp: get_def)
  moreover have "length (overrides (active_autovisualizer kc))
            \<noteq> Suc (length (overrides (active_autovisualizer k')))
          \<longrightarrow> fst (autovisualize sh line cell (magic_state0 k)) = Inl InvariantViolation
              \<and> kernel (snd (autovisualize sh line cell (magic_state0 k))) = kc"
    unfolding run by simp
  ultimately show ?thesis by blast
qed

theorem scoped_override_popped_witness:
  "fst (autovisualize none_shell [120] [121] (magic_state0 example_kernel))
     = Inl (Raised ''ValueError'')
   \<and> overrides (active_autovisualizer
        (kernel (snd (autovisualize none_shell [120] [121] (magic_state0 example_kernel)))))
     = []
   \<and> get (active_autovisualizer
        (kernel (snd (autovisualize none_shell [120] [121] (magic_state0 example_kernel)))))
     = Obj 1
   \<and> fst (autovisualize globally_setting_shell [] [121] (magic_state0 kernel_with_default))
     = Inr ()
   \<and> overrides (active_autovisualizer
        (kernel (snd (autovisualize globally_setting_shell [] [121]
                        (magic_state0 kernel_with_default)))))
     = []"
proof -
  have "fst (autovisualize none_shell [120] [121] (magic_state0 example_kernel))
     = Inl (Raised ''ValueError'')
   \<and> overrides (active_autovisualizer
        (kernel (snd (autovisualize none_shell [120] [121] (magic_state0 example_kernel)))))
     = []
   \<and> get (active_autovisualizer
        (kernel (snd (autovisualize none_shell [120] [121] (magic_state0 example_kernel)))))
     = Obj 1"
    using scoped_override_popped
          [where line = "[120]" and sh = none_shell and k = example_kernel and a = NoneObj
             and k' = example_kernel
             and av = "Callable (\<lambda>value path. None)"
             and kb = "example_kernel\<lparr>active_autovisualizer :=
                         \<lparr>permanent = Obj 1, overrides = [Callable (\<lambda>value path. None)]\<rparr>\<rparr>"
             and cell = "[121]" and r = "Inl ''ValueError''"
             and kc = "example_kernel\<lparr>active_autovisualizer :=
                         \<lparr>permanent = Obj 1, overrides = [Callable (\<lambda>value path. None)]\<rparr>\<rparr>"]
    by (auto simp: none_shell_def example_kernel_def get_def py_strip_def py_isspace_def
        lift_ext_def)
  moreover have "fst (autovisualize globally_setting_shell [] [121]
                        (magic_state0 kernel_with_default)) = Inr ()
   \<and> overrides (active_autovisualizer
        (kernel (snd (autovisualize globally_setting_shell [] [121]
                        (magic_state0 kernel_with_default)))))
     = []"
    using scoped_override_popped
          [where line = "[]" and sh = globally_setting_shell and k = kernel_with_default
             and a = "Obj 3" and k' = kernel_with_default and av = "Obj 3"
             and kb = "kernel_with_default\<lparr>active_autovisualizer :=
                         \<lparr>permanent = Obj 1, overrides = [Obj 3]\<rparr>\<rparr>"
             and cell = "[121]" and r = "Inr ()"
             and kc = "kernel_with_default\<lparr>active_autovisualizer :=
                         \<lparr>permanent = Obj 2, overrides = [Obj 3]\<rparr>\<rparr>"]
    by (auto simp: globally_setting_shell_def kernel_with_default_def get_def py_strip_def
        set_globally_def lift_ext_def)
  ultimately show ?thesis by simp
qed

text \<open>
  C7, as stated, fails for a cell body that enters a scope of the active autovisualizer
  and ends without leaving it: the release of the magic's scope fails with an
  invariant violation, the magic's override (object 3, the default) is still on the
  stack below the body's, and \<^verbatim>\<open>get()\<close>, which returned object 1 before the cell,
  returns object 7 after it.
\<close>

theorem override_left_in_place_counterexample:
  "fst (autovisualize leaking_shell [] [121] (magic_state0 kernel_with_default))
     = Inl InvariantViolation
   \<and> overrides (active_autovisualizer
        (kernel (snd (autovisualize leaking_shell [] [121]
                        (magic_state0 kernel_with_default)))))
     = [Obj 7, Obj 3]
   \<and> get (active_autovisualizer kernel_with_default) = Obj 1
   \<and> get (active_autovisualizer
        (kernel (snd (autovisualize leaking_shell [] [121]
                        (magic_state0 kernel_with_default))))) = Obj 7"
  by (simp add: autovisualize_def magic_defs leaking_shell_def kernel_with_default_def
      get_def py_strip_def)


end
